theory Spec2Isabelle
  imports Main
begin

section \<open>Paged reaction menus of the Pokecord cog (\<^verbatim>\<open>pokecord/menus.py\<close>)\<close>

text \<open>
  The module defines two reaction menus, \<^verbatim>\<open>PokeListMenu\<close> and \<^verbatim>\<open>GenericMenu\<close>, both
  subclasses of the vendored \<^verbatim>\<open>menus.MenuPages\<close>, and three page sources, all subclasses
  of \<^verbatim>\<open>menus.ListPageSource\<close> with \<^verbatim>\<open>per_page=1\<close>.

  A handler is a function from the menu object to the menu object it leaves behind,
  paired with the exception it raised, if any: a raise keeps the state reached at the
  raise. Everything a handler sends to Discord is appended to the menu's list of effects.
\<close>

subsection \<open>Python values\<close>

datatype py_error = IndexError | TypeError | KeyError

type_synonym 's result = "py_error option \<times> 's"

definition and_then :: "'s result \<Rightarrow> ('s \<Rightarrow> 's result) \<Rightarrow> 's result" where
  \<comment> \<open>Two statements in sequence: the second runs only when the first did not raise.\<close>
  "and_then r f = (case r of (None, s) \<Rightarrow> f s | (Some e, s) \<Rightarrow> (Some e, s))"

definition list_getitem :: "'a list \<Rightarrow> int \<Rightarrow> py_error + 'a" where
  \<comment> \<open>\<^verbatim>\<open>entries[i]\<close> on a Python list: a negative index counts from the end, an index
      outside the list raises \<^verbatim>\<open>IndexError\<close>.\<close>
  "list_getitem entries i =
     (if 0 \<le> i \<and> i < int (length entries) then Inr (entries ! nat i)
      else if i < 0 \<and> - int (length entries) \<le> i then Inr (entries ! nat (int (length entries) + i))
      else Inl IndexError)"

subsection \<open>Page sources\<close>

text \<open>
  A page source is the object behind \<^verbatim>\<open>self._source\<close>: the handlers only call
  \<^verbatim>\<open>get_max_pages()\<close>, which may return \<^verbatim>\<open>None\<close>, and (through the framework)
  \<^verbatim>\<open>get_page(n)\<close>. The framework also asks the source whether it paginates at all,
  \<^verbatim>\<open>is_paginating()\<close>, before it adds any reaction.
\<close>

record 'p PageSource =
  get_max_pages :: "int option"
  get_page :: "int \<Rightarrow> py_error + 'p"
  is_paginating :: bool

definition ListPageSource :: "'p list \<Rightarrow> 'p PageSource" where
  \<comment> \<open>Host framework, not under src/: \<^verbatim>\<open>menus.ListPageSource(entries, per_page=1)\<close>, the base
      class of \<^verbatim>\<open>PokeList\<close>, \<^verbatim>\<open>SearchFormat\<close> and \<^verbatim>\<open>PokedexFormat\<close>. With one entry per
      page the page count is \<^verbatim>\<open>len(entries)\<close>, page \<^verbatim>\<open>n\<close> is \<^verbatim>\<open>entries[n]\<close>, and the
      source paginates when \<^verbatim>\<open>len(entries) > per_page\<close>.\<close>
  "ListPageSource entries =
     \<lparr> get_max_pages = Some (int (length entries)), get_page = list_getitem entries,
       is_paginating = (length entries > 1) \<rparr>"

subsection \<open>The menu object\<close>

datatype message = Prompt | Notice | Reply int

datatype 'p effect =
    Edit 'p \<comment> \<open>\<^verbatim>\<open>self.message.edit\<close> with the rendering of a page\<close>
  | Send message \<comment> \<open>\<^verbatim>\<open>self.ctx.send\<close>\<close>
  | Delete message \<comment> \<open>\<^verbatim>\<open>msg.delete()\<close>\<close>
  | Invoke string int \<comment> \<open>\<^verbatim>\<open>self.ctx.invoke(command, _id=...)\<close>\<close>

record 'p Menu =
  source :: "'p PageSource" \<comment> \<open>\<^verbatim>\<open>self._source\<close>\<close>
  current_page :: int
  running :: bool \<comment> \<open>\<^verbatim>\<open>self._running\<close>\<close>
  message_id :: nat \<comment> \<open>\<^verbatim>\<open>self.message.id\<close>\<close>
  owner_ids :: "nat list" \<comment> \<open>\<^verbatim>\<open>self.bot.owner_ids\<close>\<close>
  author_id :: nat \<comment> \<open>\<^verbatim>\<open>self._author_id\<close>\<close>
  effects :: "'p effect list"

record 'p PokeListMenu = "'p Menu" +
  ctx_author :: nat \<comment> \<open>\<^verbatim>\<open>self.ctx.author\<close>\<close>
  user :: nat \<comment> \<open>\<^verbatim>\<open>self.user\<close>\<close>

record 'p GenericMenu = "'p Menu" +
  len_poke :: int

subsection \<open>Framework methods the handlers call\<close>

definition max_pages_minus_one :: "('p, 'z) Menu_scheme \<Rightarrow> py_error + int" where
  \<comment> \<open>\<^verbatim>\<open>self._source.get_max_pages() - 1\<close>: subtracting from \<^verbatim>\<open>None\<close> raises \<^verbatim>\<open>TypeError\<close>.\<close>
  "max_pages_minus_one m =
     (case get_max_pages (source m) of None \<Rightarrow> Inl TypeError | Some max_pages \<Rightarrow> Inr (max_pages - 1))"

definition show_page :: "int \<Rightarrow> ('p, 'z) Menu_scheme \<Rightarrow> ('p, 'z) Menu_scheme result" where
  \<comment> \<open>Host framework, not under src/: \<^verbatim>\<open>MenuPages.show_page\<close> fetches the page from the
      source, then stores the page number and edits the message. A raise of \<^verbatim>\<open>get_page\<close>
      leaves \<^verbatim>\<open>current_page\<close> as it was.\<close>
  "show_page page_number m =
     (case get_page (source m) page_number of
        Inl e \<Rightarrow> (Some e, m)
      | Inr page \<Rightarrow> (None, m\<lparr>current_page := page_number, effects := effects m @ [Edit page]\<rparr>))"

definition show_checked_page :: "int \<Rightarrow> ('p, 'z) Menu_scheme \<Rightarrow> ('p, 'z) Menu_scheme result" where
  \<comment> \<open>Host framework, not under src/: \<^verbatim>\<open>MenuPages.show_checked_page\<close> shows the page when
      the page count is unknown or \<^verbatim>\<open>max_pages > page_number >= 0\<close>, does nothing
      otherwise, and swallows \<^verbatim>\<open>IndexError\<close>.\<close>
  "show_checked_page page_number m =
     (let r = (case get_max_pages (source m) of
                 None \<Rightarrow> show_page page_number m
               | Some max_pages \<Rightarrow>
                   if max_pages > page_number \<and> page_number \<ge> 0 then show_page page_number m
                   else (None, m))
      in case r of (Some IndexError, m') \<Rightarrow> (None, m') | _ \<Rightarrow> r)"

definition stop :: "('p, 'z) Menu_scheme \<Rightarrow> ('p, 'z) Menu_scheme" where
  \<comment> \<open>Modelled from the spec: the framework's \<^verbatim>\<open>Menu.stop\<close> is not under src/. The stop
      action moves the menu to the stopped state, in which it can no longer be acted on.\<close>
  "stop m = m\<lparr>running := False\<rparr>"

subsection \<open>\<^verbatim>\<open>PokeListMenu\<close>: the button handlers\<close>

definition PokeListMenu_prev :: "'p PokeListMenu \<Rightarrow> 'p PokeListMenu result" where
  "PokeListMenu_prev m =
     (if current_page m = 0 then
        (case max_pages_minus_one m of Inl e \<Rightarrow> (Some e, m) | Inr n \<Rightarrow> show_page n m)
      else show_checked_page (current_page m - 1) m)"

definition PokeListMenu_stop_pages_default :: "'p PokeListMenu \<Rightarrow> 'p PokeListMenu result" where
  "PokeListMenu_stop_pages_default m = (None, stop m)"

definition PokeListMenu_next :: "'p PokeListMenu \<Rightarrow> 'p PokeListMenu result" where
  "PokeListMenu_next m =
     (case max_pages_minus_one m of
        Inl e \<Rightarrow> (Some e, m)
      | Inr n \<Rightarrow> if current_page m = n then show_page 0 m
                 else show_checked_page (current_page m + 1) m)"

definition cleanup :: "message list \<Rightarrow> ('p, 'z) Menu_scheme \<Rightarrow> ('p, 'z) Menu_scheme" where
  \<comment> \<open>The local \<^verbatim>\<open>cleanup\<close> of \<^verbatim>\<open>number_page\<close>: deletes the messages in order. A failing
      deletion (\<^verbatim>\<open>discord.HTTPException\<close>, suppressed by the source) is not modelled.\<close>
  "cleanup messages m = m\<lparr>effects := effects m @ map Delete messages\<rparr>"

definition ctx_send :: "message \<Rightarrow> ('p, 'z) Menu_scheme \<Rightarrow> ('p, 'z) Menu_scheme" where
  "ctx_send msg m = m\<lparr>effects := effects m @ [Send msg]\<rparr>"

definition PokeListMenu_number_page :: "int option \<Rightarrow> 'p PokeListMenu \<Rightarrow> 'p PokeListMenu result" where
  \<comment> \<open>The first argument is what \<^verbatim>\<open>bot.wait_for\<close> with the predicate
      \<^verbatim>\<open>MessagePredicate.valid_int\<close> gives within 10 seconds: \<^verbatim>\<open>None\<close> for
      \<^verbatim>\<open>asyncio.TimeoutError\<close>, otherwise the integer the reply parses to, which is both
      \<^verbatim>\<open>pred.result\<close> and \<^verbatim>\<open>int(msg.content)\<close>. The test \<^verbatim>\<open>if pred.result:\<close> is Python
      truthiness of that integer.\<close>
  "PokeListMenu_number_page reply m =
     (let m1 = ctx_send Prompt m in
      case reply of
        None \<Rightarrow> (None, cleanup [Prompt] m1)
      | Some result \<Rightarrow>
          if result \<noteq> 0 then
            (case get_max_pages (source m1) of
               None \<Rightarrow> (Some TypeError, m1)
             | Some max_pages \<Rightarrow>
                 (let m2 = (if result > max_pages then ctx_send Notice m1 else m1);
                      jump_page = (if result > max_pages then max_pages else result)
                  in and_then (show_checked_page (jump_page - 1) m2)
                       (\<lambda>m3. (None, cleanup [Prompt, Reply result] m3))))
          else (None, m1))"

definition PokeListMenu_cant_select :: "'p PokeListMenu \<Rightarrow> bool" where
  "PokeListMenu_cant_select m = (\<not> (ctx_author m = user m))"

definition PokeListMenu_select :: "'p PokeListMenu \<Rightarrow> 'p PokeListMenu result" where
  "PokeListMenu_select m = (None, m\<lparr>effects := effects m @ [Invoke ''select'' (current_page m + 1)]\<rparr>)"

subsection \<open>\<^verbatim>\<open>GenericMenu\<close>: skip predicates and button handlers\<close>

definition GenericMenu_skip_single_arrows :: "'p GenericMenu \<Rightarrow> bool" where
  "GenericMenu_skip_single_arrows m =
     (case get_max_pages (source m) of None \<Rightarrow> True | Some max_pages \<Rightarrow> max_pages = 1)"

definition GenericMenu_skip_double_triangle_buttons :: "'p GenericMenu \<Rightarrow> bool" where
  "GenericMenu_skip_double_triangle_buttons m =
     (case get_max_pages (source m) of None \<Rightarrow> True | Some max_pages \<Rightarrow> max_pages \<le> 2)"

definition GenericMenu_prev :: "'p GenericMenu \<Rightarrow> 'p GenericMenu result" where
  "GenericMenu_prev m =
     (if current_page m = 0 then
        (case max_pages_minus_one m of Inl e \<Rightarrow> (Some e, m) | Inr n \<Rightarrow> show_page n m)
      else show_checked_page (current_page m - 1) m)"

definition GenericMenu_stop_pages_default :: "'p GenericMenu \<Rightarrow> 'p GenericMenu result" where
  "GenericMenu_stop_pages_default m = (None, stop m)"

definition GenericMenu_next :: "'p GenericMenu \<Rightarrow> 'p GenericMenu result" where
  "GenericMenu_next m =
     (case max_pages_minus_one m of
        Inl e \<Rightarrow> (Some e, m)
      | Inr n \<Rightarrow> if current_page m = n then show_page 0 m
                 else show_checked_page (current_page m + 1) m)"

definition GenericMenu_go_to_first_page :: "'p GenericMenu \<Rightarrow> 'p GenericMenu result" where
  "GenericMenu_go_to_first_page m = show_page 0 m"

definition GenericMenu_go_to_last_page :: "'p GenericMenu \<Rightarrow> 'p GenericMenu result" where
  "GenericMenu_go_to_last_page m =
     (case max_pages_minus_one m of Inl e \<Rightarrow> (Some e, m) | Inr n \<Rightarrow> show_page n m)"

subsection \<open>Buttons, the reaction check and the dispatch of events\<close>

datatype emoji =
    BLACK_LEFT_POINTING_TRIANGLE
  | CROSS_MARK
  | BLACK_RIGHT_POINTING_TRIANGLE
  | LEFT_POINTING_MAGNIFYING_GLASS
  | WHITE_HEAVY_CHECK_MARK
  | BLACK_LEFT_POINTING_DOUBLE_TRIANGLE_WITH_VERTICAL_BAR
  | BLACK_RIGHT_POINTING_DOUBLE_TRIANGLE_WITH_VERTICAL_BAR
  | Other_emoji nat

text \<open>
  A button is what the decorator \<^verbatim>\<open>@menus.button(emoji, position=..., skip_if=...)\<close>
  declares: the emoji, the optional skip predicate and the handler. The handler takes the
  reply of the jump prompt as well, which only \<^verbatim>\<open>number_page\<close> reads. The position only
  orders the reactions and is left out.
\<close>

record 'm button =
  emoji :: emoji
  skip_if :: "('m \<Rightarrow> bool) option"
  action :: "int option \<Rightarrow> 'm \<Rightarrow> 'm result"

definition PokeListMenu_buttons :: "'p PokeListMenu button list" where
  "PokeListMenu_buttons =
     [ \<lparr> emoji = BLACK_LEFT_POINTING_TRIANGLE, skip_if = None, action = (\<lambda>_. PokeListMenu_prev) \<rparr>,
       \<lparr> emoji = CROSS_MARK, skip_if = None, action = (\<lambda>_. PokeListMenu_stop_pages_default) \<rparr>,
       \<lparr> emoji = BLACK_RIGHT_POINTING_TRIANGLE, skip_if = None, action = (\<lambda>_. PokeListMenu_next) \<rparr>,
       \<lparr> emoji = LEFT_POINTING_MAGNIFYING_GLASS, skip_if = None, action = PokeListMenu_number_page \<rparr>,
       \<lparr> emoji = WHITE_HEAVY_CHECK_MARK, skip_if = Some PokeListMenu_cant_select,
         action = (\<lambda>_. PokeListMenu_select) \<rparr> ]"

definition GenericMenu_buttons :: "'p GenericMenu button list" where
  "GenericMenu_buttons =
     [ \<lparr> emoji = BLACK_LEFT_POINTING_TRIANGLE, skip_if = Some GenericMenu_skip_single_arrows,
         action = (\<lambda>_. GenericMenu_prev) \<rparr>,
       \<lparr> emoji = CROSS_MARK, skip_if = None, action = (\<lambda>_. GenericMenu_stop_pages_default) \<rparr>,
       \<lparr> emoji = BLACK_RIGHT_POINTING_TRIANGLE, skip_if = Some GenericMenu_skip_single_arrows,
         action = (\<lambda>_. GenericMenu_next) \<rparr>,
       \<lparr> emoji = BLACK_LEFT_POINTING_DOUBLE_TRIANGLE_WITH_VERTICAL_BAR,
         skip_if = Some GenericMenu_skip_double_triangle_buttons,
         action = (\<lambda>_. GenericMenu_go_to_first_page) \<rparr>,
       \<lparr> emoji = BLACK_RIGHT_POINTING_DOUBLE_TRIANGLE_WITH_VERTICAL_BAR,
         skip_if = Some GenericMenu_skip_double_triangle_buttons,
         action = (\<lambda>_. GenericMenu_go_to_last_page) \<rparr> ]"

definition skipped :: "'m button \<Rightarrow> 'm \<Rightarrow> bool" where
  "skipped b m = (case skip_if b of None \<Rightarrow> False | Some p \<Rightarrow> p m)"

definition buttons :: "'m button list \<Rightarrow> 'm \<Rightarrow> 'm button list" where
  \<comment> \<open>Host framework, not under src/: the property \<^verbatim>\<open>Menu.buttons\<close>, the declared buttons
      without those whose skip predicate holds of the menu.\<close>
  "buttons declared m = filter (\<lambda>b. \<not> skipped b m) declared"

definition should_add_reactions :: "('p, 'z) Menu_scheme \<Rightarrow> bool" where
  \<comment> \<open>Host framework, not under src/: \<^verbatim>\<open>MenuPages.should_add_reactions\<close>, which neither
      class of the module overrides (the constructor argument \<^verbatim>\<open>add_reactions\<close> is not
      passed on): the answer of the source's \<^verbatim>\<open>is_paginating()\<close>.\<close>
  "should_add_reactions m = is_paginating (source m)"

definition reactions_added :: "('p, 'z) Menu_scheme button list \<Rightarrow> ('p, 'z) Menu_scheme \<Rightarrow> emoji list" where
  \<comment> \<open>Host framework, not under src/: what \<^verbatim>\<open>Menu.start\<close> shows under the message. Only
      when \<^verbatim>\<open>should_add_reactions()\<close> holds does it start listening and add one reaction
      for each emoji of \<^verbatim>\<open>self.buttons\<close>; otherwise the message carries no control.\<close>
  "reactions_added declared m =
     (if should_add_reactions m then map emoji (buttons declared m) else [])"

record payload =
  payload_message_id :: nat
  user_id :: nat
  payload_emoji :: emoji

definition PokeListMenu_reaction_check :: "'p PokeListMenu \<Rightarrow> payload \<Rightarrow> bool" where
  "PokeListMenu_reaction_check m p =
     (if payload_message_id p \<noteq> message_id m then False
      else if user_id p \<notin> set (owner_ids m @ [author_id m]) then False
      else payload_emoji p \<in> set (map emoji (buttons PokeListMenu_buttons m)))"

definition GenericMenu_reaction_check :: "'p GenericMenu \<Rightarrow> payload \<Rightarrow> bool" where
  "GenericMenu_reaction_check m p =
     (if payload_message_id p \<noteq> message_id m then False
      else if user_id p \<notin> set (owner_ids m @ [author_id m]) then False
      else payload_emoji p \<in> set (map emoji (buttons GenericMenu_buttons m)))"

definition update ::
  "('p, 'z) Menu_scheme button list \<Rightarrow> payload \<Rightarrow> int option \<Rightarrow> ('p, 'z) Menu_scheme
     \<Rightarrow> ('p, 'z) Menu_scheme result" where
  \<comment> \<open>Modelled from the spec: the framework's \<^verbatim>\<open>Menu.update\<close> is not under src/. It looks
      the button of the emoji up and runs its handler, unless the menu is stopped: the
      stopped state is terminal. The framework catches an exception of the handler and
      goes on; here it is returned, with the state, so that it can be seen.\<close>
  "update declared p reply m =
     (case find (\<lambda>b. emoji b = payload_emoji p) (buttons declared m) of
        None \<Rightarrow> (Some KeyError, m)
      | Some b \<Rightarrow> if \<not> running m then (None, m) else action b reply m)"

definition dispatch ::
  "(('p, 'z) Menu_scheme \<Rightarrow> payload \<Rightarrow> bool) \<Rightarrow> ('p, 'z) Menu_scheme button list \<Rightarrow>
     payload \<Rightarrow> int option \<Rightarrow> ('p, 'z) Menu_scheme \<Rightarrow> ('p, 'z) Menu_scheme result" where
  \<comment> \<open>The use the docstring of \<^verbatim>\<open>reaction_check\<close> states: the check is passed to
      \<^verbatim>\<open>Bot.wait_for\<close> and decides whether the payload is processed. A payload that
      fails the check reaches no handler.\<close>
  "dispatch check declared p reply m =
     (if check m p then update declared p reply m else (None, m))"

fun dispatch_all ::
  "(('p, 'z) Menu_scheme \<Rightarrow> payload \<Rightarrow> bool) \<Rightarrow> ('p, 'z) Menu_scheme button list \<Rightarrow>
     (payload \<times> int option) list \<Rightarrow> ('p, 'z) Menu_scheme \<Rightarrow> ('p, 'z) Menu_scheme" where
  \<comment> \<open>Events are delivered one after the other; a handler's exception ends that event
      only.\<close>
  "dispatch_all check declared [] m = m"
| "dispatch_all check declared ((p, reply) # events) m =
     dispatch_all check declared events (snd (dispatch check declared p reply m))"

subsection \<open>Sequences of next and previous\<close>

datatype nav = Previous | Next

fun PokeListMenu_navigate :: "nav list \<Rightarrow> 'p PokeListMenu \<Rightarrow> 'p PokeListMenu result" where
  "PokeListMenu_navigate [] m = (None, m)"
| "PokeListMenu_navigate (Previous # as) m = and_then (PokeListMenu_prev m) (PokeListMenu_navigate as)"
| "PokeListMenu_navigate (Next # as) m = and_then (PokeListMenu_next m) (PokeListMenu_navigate as)"

fun GenericMenu_navigate :: "nav list \<Rightarrow> 'p GenericMenu \<Rightarrow> 'p GenericMenu result" where
  "GenericMenu_navigate [] m = (None, m)"
| "GenericMenu_navigate (Previous # as) m = and_then (GenericMenu_prev m) (GenericMenu_navigate as)"
| "GenericMenu_navigate (Next # as) m = and_then (GenericMenu_next m) (GenericMenu_navigate as)"

subsection \<open>\<^verbatim>\<open>PokeList.format_page\<close>: the page of one Pok\'emon\<close>

text \<open>
  A Python string is a list of characters; the only character beyond ASCII in the
  literals of the function is U+00E9, written \<^term>\<open>CHR 0xE9\<close>.
\<close>

definition digit :: "nat \<Rightarrow> char" where
  "digit d = char_of (48 + d)"

fun str_nat :: "nat \<Rightarrow> string" where
  "str_nat n = (if n < 10 then [digit n] else str_nat (n div 10) @ [digit (n mod 10)])"

declare str_nat.simps [simp del]

definition str_int :: "int \<Rightarrow> string" where
  \<comment> \<open>\<^verbatim>\<open>str(i)\<close> of a Python integer.\<close>
  "str_int i = (if i < 0 then CHR ''-'' # str_nat (nat (- i)) else str_nat (nat i))"

definition zfill :: "nat \<Rightarrow> string \<Rightarrow> string" where
  \<comment> \<open>\<^verbatim>\<open>s.zfill(width)\<close>: zeros on the left up to the width, after a leading sign.\<close>
  "zfill width s =
     (if width \<le> length s then s
      else case s of
        c # rest \<Rightarrow>
          if c = CHR ''+'' \<or> c = CHR ''-'' then c # replicate (width - length s) CHR ''0'' @ rest
          else replicate (width - length s) CHR ''0'' @ s
      | [] \<Rightarrow> replicate width CHR ''0'')"

fun join :: "string \<Rightarrow> string list \<Rightarrow> string" where
  \<comment> \<open>\<^verbatim>\<open>sep.join(xs)\<close>\<close>
  "join sep [] = []"
| "join sep [x] = x"
| "join sep (x # y # ys) = x @ sep @ join sep (y # ys)"

record stats =
  HP :: int
  Attack :: int
  Defence :: int
  Sp_Atk :: int
  Sp_Def :: int
  Speed :: int

text \<open>
  The dictionary of one Pok\'emon. The keys read with \<^verbatim>\<open>pokemon[...]\<close> are fields; the
  keys read with \<^verbatim>\<open>pokemon.get(...)\<close> are optional.
\<close>

record pokemon =
  name :: string
  level :: int
  xp :: int
  type :: "string list"
  stats :: stats
  sid :: int
  nickname :: "string option"
  variant :: "string option"
  pokemon_id :: "int option"
  url :: "string option"

definition truthy_int :: "int option \<Rightarrow> bool" where
  \<comment> \<open>Python truthiness of \<^verbatim>\<open>pokemon.get(key)\<close> for an integer: a missing key gives
      \<^verbatim>\<open>None\<close>, and both \<^verbatim>\<open>None\<close> and \<^verbatim>\<open>0\<close> are false.\<close>
  "truthy_int v = (case v of None \<Rightarrow> False | Some i \<Rightarrow> i \<noteq> 0)"

definition truthy_str :: "string option \<Rightarrow> bool" where
  \<comment> \<open>The same for a string: \<^verbatim>\<open>None\<close> and the empty string are false.\<close>
  "truthy_str v = (case v of None \<Rightarrow> False | Some s \<Rightarrow> s \<noteq> [])"

text \<open>
  What the function takes from outside the module: the two methods of the cog, and the
  rendering of the table of stats, \<^verbatim>\<open>box(tabulate.tabulate(rows, headers), lang="prolog")\<close>.
  The translator \<^verbatim>\<open>_\<close> is the identity.
\<close>

record cog =
  calc_xp :: "int \<Rightarrow> int"
  get_name :: "string \<Rightarrow> nat \<Rightarrow> string"
  box_tabulate :: "(string \<times> int) list \<Rightarrow> string"

record embed =
  title :: string
  description :: string
  thumbnail :: "string option"
  footer :: "string option"

definition PokeList_format_page ::
  "pokemon list \<Rightarrow> cog \<Rightarrow> 'p PokeListMenu \<Rightarrow> pokemon \<Rightarrow> embed" where
  \<comment> \<open>The first argument is \<^verbatim>\<open>self.entries\<close>, the second \<^verbatim>\<open>menu.cog\<close>;
      \<^verbatim>\<open>self.get_max_pages()\<close> is the number of entries.\<close>
  "PokeList_format_page entries c menu p =
     (let pokestats = box_tabulate c
            [ (''HP'', HP (stats p)), (''Attack'', Attack (stats p)),
              (''Defence'', Defence (stats p)), (''Sp. Atk'', Sp_Atk (stats p)),
              (''Sp. Def'', Sp_Def (stats p)), (''Speed'', Speed (stats p)) ];
          alias = (case nickname p of
                     Some nick \<Rightarrow> ''**Nickname**: '' @ nick @ [CHR 0x0A]
                   | None \<Rightarrow> []);
          variant_line = (if truthy_str (variant p)
                          then ''**Variant**: '' @ the (variant p) @ [CHR 0x0A] else []);
          types = join '', '' (type p);
          desc = ''**ID**: '' @ (if truthy_int (pokemon_id p) then CHR ''#'' # str_int (the (pokemon_id p)) else ''0'')
                 @ [CHR 0x0A] @ alias
                 @ ''**Level**: '' @ str_int (level p) @ [CHR 0x0A]
                 @ ''**Type**: '' @ types @ [CHR 0x0A]
                 @ ''**XP**: '' @ str_int (xp p) @ ''/'' @ str_int (calc_xp c (level p)) @ [CHR 0x0A]
                 @ variant_line @ pokestats
      in \<lparr> title = get_name c (name p) (ctx_author menu),
           description = desc,
           thumbnail =
             (if truthy_int (pokemon_id p) then
                Some (if \<not> truthy_str (url p)
                      then ''https://assets.pokemon.com/assets/cms2/img/pokedex/detail/''
                           @ zfill 3 (str_int (the (pokemon_id p))) @ ''.png''
                      else the (url p))
              else None),
           footer = Some (''Pok'' @ [CHR 0xE9] @ ''mon ID: '' @ str_int (sid p) @ ''/''
                          @ str_int (int (length entries))) \<rparr>)"

subsection \<open>Example objects\<close>

definition three_pages :: "string PokeListMenu" where
  "three_pages =
     \<lparr> source = ListPageSource [''a'', ''b'', ''c''], current_page = 2, running = True,
       message_id = 10, owner_ids = [1], author_id = 2, effects = [],
       ctx_author = 2, user = 2 \<rparr>"

definition three_pages_generic :: "string GenericMenu" where
  "three_pages_generic =
     \<lparr> source = ListPageSource [''a'', ''b'', ''c''], current_page = 0, running = True,
       message_id = 11, owner_ids = [1], author_id = 2, effects = [], len_poke = 3 \<rparr>"

definition one_page :: "string PokeListMenu" where
  "one_page =
     \<lparr> source = ListPageSource [''a''], current_page = 0, running = True,
       message_id = 14, owner_ids = [1], author_id = 2, effects = [],
       ctx_author = 2, user = 2 \<rparr>"



definition stranger :: "nat \<Rightarrow> emoji \<Rightarrow> payload" where
  \<comment> \<open>A reaction on the given message by user 7, who is neither an owner nor the author
      of the example menus.\<close>
  "stranger mid e = \<lparr> payload_message_id = mid, user_id = 7, payload_emoji = e \<rparr>"

definition owner_reacts :: "nat \<Rightarrow> emoji \<Rightarrow> payload" where
  \<comment> \<open>A reaction by user 1, the owner in the example menus, who is not their author.\<close>
  "owner_reacts mid e = \<lparr> payload_message_id = mid, user_id = 1, payload_emoji = e \<rparr>"

definition author_reacts :: "nat \<Rightarrow> emoji \<Rightarrow> payload" where
  "author_reacts mid e = \<lparr> payload_message_id = mid, user_id = 2, payload_emoji = e \<rparr>"

definition pikachu :: pokemon where
  "pikachu =
     \<lparr> name = ''Pikachu'', level = 5, xp = 40, type = [''Electric''],
       stats = \<lparr> HP = 35, Attack = 55, Defence = 40, Sp_Atk = 50, Sp_Def = 50, Speed = 90 \<rparr>,
       sid = 1, nickname = None, variant = None, pokemon_id = Some 25, url = None \<rparr>"

definition missingno :: pokemon where
  \<comment> \<open>A record that carries a sprite URL and no catalog id.\<close>
  "missingno =
     \<lparr> name = ''MissingNo'', level = 1, xp = 0, type = [''Bird'', ''Normal''],
       stats = \<lparr> HP = 33, Attack = 136, Defence = 0, Sp_Atk = 6, Sp_Def = 6, Speed = 29 \<rparr>,
       sid = 2, nickname = Some ''Glitch'', variant = None, pokemon_id = None,
       url = Some ''https://example.org/missingno.png'' \<rparr>"

definition plain_cog :: cog where
  "plain_cog = \<lparr> calc_xp = (\<lambda>l. 100 * l), get_name = (\<lambda>n _. n), box_tabulate = (\<lambda>_. ''stats'') \<rparr>"

section \<open>Properties\<close>

subsection \<open>List sources under the framework methods\<close>

lemma show_page_list:
  assumes "source m = ListPageSource entries" "0 \<le> i" "i < int (length entries)"
  shows "show_page i m = (None, m\<lparr>current_page := i, effects := effects m @ [Edit (entries ! nat i)]\<rparr>)"
  using assms by (simp add: show_page_def ListPageSource_def list_getitem_def)

lemma show_checked_page_list:
  assumes "source m = ListPageSource entries" "0 \<le> i" "i < int (length entries)"
  shows "show_checked_page i m = (None, m\<lparr>current_page := i, effects := effects m @ [Edit (entries ! nat i)]\<rparr>)"
  using assms show_page_list[OF assms] by (simp add: show_checked_page_def ListPageSource_def)

lemma show_checked_page_outside:
  assumes "get_max_pages (source m) = Some n" "i < 0 \<or> n \<le> i"
  shows "show_checked_page i m = (None, m)"
  using assms by (auto simp add: show_checked_page_def)

lemma max_pages_minus_one_list:
  "source m = ListPageSource entries \<Longrightarrow> max_pages_minus_one m = Inr (int (length entries) - 1)"
  by (simp add: max_pages_minus_one_def ListPageSource_def)

lemma PokeListMenu_next_list:
  assumes "source m = ListPageSource entries" "0 \<le> current_page m" "current_page m < int (length entries)"
  shows "PokeListMenu_next m =
    (let i = (if current_page m = int (length entries) - 1 then 0 else current_page m + 1)
     in (None, m\<lparr>current_page := i, effects := effects m @ [Edit (entries ! nat i)]\<rparr>))"
proof (cases "current_page m = int (length entries) - 1")
  case True
  have "show_page 0 m = (None, m\<lparr>current_page := 0, effects := effects m @ [Edit (entries ! nat 0)]\<rparr>)"
    using assms by (intro show_page_list) auto
  then show ?thesis
    using True assms(1) by (simp add: PokeListMenu_next_def max_pages_minus_one_list Let_def)
next
  case False
  have "show_checked_page (current_page m + 1) m =
    (None, m\<lparr>current_page := current_page m + 1,
       effects := effects m @ [Edit (entries ! nat (current_page m + 1))]\<rparr>)"
    using assms False by (intro show_checked_page_list) auto
  then show ?thesis
    using False assms(1) by (simp add: PokeListMenu_next_def max_pages_minus_one_list Let_def)
qed

lemma PokeListMenu_prev_list:
  assumes "source m = ListPageSource entries" "0 \<le> current_page m" "current_page m < int (length entries)"
  shows "PokeListMenu_prev m =
    (let i = (if current_page m = 0 then int (length entries) - 1 else current_page m - 1)
     in (None, m\<lparr>current_page := i, effects := effects m @ [Edit (entries ! nat i)]\<rparr>))"
proof (cases "current_page m = 0")
  case True
  have "show_page (int (length entries) - 1) m =
    (None, m\<lparr>current_page := int (length entries) - 1,
       effects := effects m @ [Edit (entries ! nat (int (length entries) - 1))]\<rparr>)"
    using assms by (intro show_page_list) auto
  then show ?thesis
    using True assms(1) by (simp add: PokeListMenu_prev_def max_pages_minus_one_list Let_def)
next
  case False
  have "show_checked_page (current_page m - 1) m =
    (None, m\<lparr>current_page := current_page m - 1,
       effects := effects m @ [Edit (entries ! nat (current_page m - 1))]\<rparr>)"
    using assms False by (intro show_checked_page_list) auto
  then show ?thesis
    using False assms(1) by (simp add: PokeListMenu_prev_def max_pages_minus_one_list Let_def)
qed

lemma GenericMenu_next_list:
  assumes "source m = ListPageSource entries" "0 \<le> current_page m" "current_page m < int (length entries)"
  shows "GenericMenu_next m =
    (let i = (if current_page m = int (length entries) - 1 then 0 else current_page m + 1)
     in (None, m\<lparr>current_page := i, effects := effects m @ [Edit (entries ! nat i)]\<rparr>))"
proof (cases "current_page m = int (length entries) - 1")
  case True
  have "show_page 0 m = (None, m\<lparr>current_page := 0, effects := effects m @ [Edit (entries ! nat 0)]\<rparr>)"
    using assms by (intro show_page_list) auto
  then show ?thesis
    using True assms(1) by (simp add: GenericMenu_next_def max_pages_minus_one_list Let_def)
next
  case False
  have "show_checked_page (current_page m + 1) m =
    (None, m\<lparr>current_page := current_page m + 1,
       effects := effects m @ [Edit (entries ! nat (current_page m + 1))]\<rparr>)"
    using assms False by (intro show_checked_page_list) auto
  then show ?thesis
    using False assms(1) by (simp add: GenericMenu_next_def max_pages_minus_one_list Let_def)
qed

lemma GenericMenu_prev_list:
  assumes "source m = ListPageSource entries" "0 \<le> current_page m" "current_page m < int (length entries)"
  shows "GenericMenu_prev m =
    (let i = (if current_page m = 0 then int (length entries) - 1 else current_page m - 1)
     in (None, m\<lparr>current_page := i, effects := effects m @ [Edit (entries ! nat i)]\<rparr>))"
proof (cases "current_page m = 0")
  case True
  have "show_page (int (length entries) - 1) m =
    (None, m\<lparr>current_page := int (length entries) - 1,
       effects := effects m @ [Edit (entries ! nat (int (length entries) - 1))]\<rparr>)"
    using assms by (intro show_page_list) auto
  then show ?thesis
    using True assms(1) by (simp add: GenericMenu_prev_def max_pages_minus_one_list Let_def)
next
  case False
  have "show_checked_page (current_page m - 1) m =
    (None, m\<lparr>current_page := current_page m - 1,
       effects := effects m @ [Edit (entries ! nat (current_page m - 1))]\<rparr>)"
    using assms False by (intro show_checked_page_list) auto
  then show ?thesis
    using False assms(1) by (simp add: GenericMenu_prev_def max_pages_minus_one_list Let_def)
qed


lemma GenericMenu_navigate_list:
  assumes "source m = ListPageSource entries" "0 \<le> current_page m" "current_page m < int (length entries)"
  shows "fst (GenericMenu_navigate as m) = None \<and>
         0 \<le> current_page (snd (GenericMenu_navigate as m)) \<and>
         current_page (snd (GenericMenu_navigate as m)) < int (length entries)"
  using assms
proof (induction as arbitrary: m)
  case Nil
  then show ?case by simp
next
  case (Cons a as)
  show ?case
  proof (cases a)
    case Previous
    let ?i = "if current_page m = 0 then int (length entries) - 1 else current_page m - 1"
    let ?m = "m\<lparr>current_page := ?i, effects := effects m @ [Edit (entries ! nat ?i)]\<rparr>"
    have step: "GenericMenu_prev m = (None, ?m)"
      using GenericMenu_prev_list[OF Cons.prems] by (simp add: Let_def)
    have "source ?m = ListPageSource entries" "0 \<le> current_page ?m" "current_page ?m < int (length entries)"
      using Cons.prems by auto
    from Cons.IH[OF this] show ?thesis
      using Previous step by (simp add: and_then_def)
  next
    case Next
    let ?i = "if current_page m = int (length entries) - 1 then 0 else current_page m + 1"
    let ?m = "m\<lparr>current_page := ?i, effects := effects m @ [Edit (entries ! nat ?i)]\<rparr>"
    have step: "GenericMenu_next m = (None, ?m)"
      using GenericMenu_next_list[OF Cons.prems] by (simp add: Let_def)
    have "source ?m = ListPageSource entries" "0 \<le> current_page ?m" "current_page ?m < int (length entries)"
      using Cons.prems by auto
    from Cons.IH[OF this] show ?thesis
      using Next step by (simp add: and_then_def)
  qed
qed

lemma PokeListMenu_navigate_list:
  assumes "source m = ListPageSource entries" "0 \<le> current_page m" "current_page m < int (length entries)"
  shows "fst (PokeListMenu_navigate as m) = None \<and>
         0 \<le> current_page (snd (PokeListMenu_navigate as m)) \<and>
         current_page (snd (PokeListMenu_navigate as m)) < int (length entries)"
  using assms
proof (induction as arbitrary: m)
  case Nil
  then show ?case by simp
next
  case (Cons a as)
  show ?case
  proof (cases a)
    case Previous
    let ?i = "if current_page m = 0 then int (length entries) - 1 else current_page m - 1"
    let ?m = "m\<lparr>current_page := ?i, effects := effects m @ [Edit (entries ! nat ?i)]\<rparr>"
    have step: "PokeListMenu_prev m = (None, ?m)"
      using PokeListMenu_prev_list[OF Cons.prems] by (simp add: Let_def)
    have "source ?m = ListPageSource entries" "0 \<le> current_page ?m" "current_page ?m < int (length entries)"
      using Cons.prems by auto
    from Cons.IH[OF this] show ?thesis
      using Previous step by (simp add: and_then_def)
  next
    case Next
    let ?i = "if current_page m = int (length entries) - 1 then 0 else current_page m + 1"
    let ?m = "m\<lparr>current_page := ?i, effects := effects m @ [Edit (entries ! nat ?i)]\<rparr>"
    have step: "PokeListMenu_next m = (None, ?m)"
      using PokeListMenu_next_list[OF Cons.prems] by (simp add: Let_def)
    have "source ?m = ListPageSource entries" "0 \<le> current_page ?m" "current_page ?m < int (length entries)"
      using Cons.prems by auto
    from Cons.IH[OF this] show ?thesis
      using Next step by (simp add: and_then_def)
  qed
qed

text \<open>
  Claim C1. On a menu over a list source with at least one page and an index inside
  \<open>[0, totalPages - 1]\<close>, in both menu classes: \<^verbatim>\<open>next\<close> at the last page goes to index 0
  and otherwise adds one, \<^verbatim>\<open>prev\<close> at index 0 goes to the last page and otherwise subtracts
  one, neither raises, and after any sequence of the two the index is still inside
  \<open>[0, totalPages - 1]\<close>.
\<close>

theorem next_prev_keep_index_in_range:
  fixes m :: "'p PokeListMenu" and g :: "'p GenericMenu"
  assumes "source m = ListPageSource entries"
    and "0 \<le> current_page m" and "current_page m < int (length entries)"
    and "source g = ListPageSource pages"
    and "0 \<le> current_page g" and "current_page g < int (length pages)"
  shows
    "(fst (PokeListMenu_next m) = None \<and>
      current_page (snd (PokeListMenu_next m)) =
        (if current_page m = int (length entries) - 1 then 0 else current_page m + 1)) \<and>
     (fst (PokeListMenu_prev m) = None \<and>
      current_page (snd (PokeListMenu_prev m)) =
        (if current_page m = 0 then int (length entries) - 1 else current_page m - 1)) \<and>
     (fst (PokeListMenu_navigate as m) = None \<and>
      0 \<le> current_page (snd (PokeListMenu_navigate as m)) \<and>
      current_page (snd (PokeListMenu_navigate as m)) < int (length entries)) \<and>
     (fst (GenericMenu_next g) = None \<and>
      current_page (snd (GenericMenu_next g)) =
        (if current_page g = int (length pages) - 1 then 0 else current_page g + 1)) \<and>
     (fst (GenericMenu_prev g) = None \<and>
      current_page (snd (GenericMenu_prev g)) =
        (if current_page g = 0 then int (length pages) - 1 else current_page g - 1)) \<and>
     (fst (GenericMenu_navigate bs g) = None \<and>
      0 \<le> current_page (snd (GenericMenu_navigate bs g)) \<and>
      current_page (snd (GenericMenu_navigate bs g)) < int (length pages))"
proof -
  have "fst (PokeListMenu_next m) = None \<and>
      current_page (snd (PokeListMenu_next m)) =
        (if current_page m = int (length entries) - 1 then 0 else current_page m + 1)"
    using PokeListMenu_next_list[OF assms(1-3)] by (simp add: Let_def)
  moreover have "fst (PokeListMenu_prev m) = None \<and>
      current_page (snd (PokeListMenu_prev m)) =
        (if current_page m = 0 then int (length entries) - 1 else current_page m - 1)"
    using PokeListMenu_prev_list[OF assms(1-3)] by (simp add: Let_def)
  moreover have "fst (GenericMenu_next g) = None \<and>
      current_page (snd (GenericMenu_next g)) =
        (if current_page g = int (length pages) - 1 then 0 else current_page g + 1)"
    using GenericMenu_next_list[OF assms(4-6)] by (simp add: Let_def)
  moreover have "fst (GenericMenu_prev g) = None \<and>
      current_page (snd (GenericMenu_prev g)) =
        (if current_page g = 0 then int (length pages) - 1 else current_page g - 1)"
    using GenericMenu_prev_list[OF assms(4-6)] by (simp add: Let_def)
  ultimately show ?thesis
    using PokeListMenu_navigate_list[OF assms(1-3), of as]
      GenericMenu_navigate_list[OF assms(4-6), of bs]
    by blast
qed

text \<open>The theorem at the two example menus of three pages.\<close>

theorem next_prev_keep_index_in_range_witness:
  "current_page (snd (PokeListMenu_next three_pages)) = 0 \<and>
   current_page (snd (PokeListMenu_prev three_pages)) = 1 \<and>
   fst (PokeListMenu_navigate [Next, Next, Previous, Previous] three_pages) = None \<and>
   current_page (snd (PokeListMenu_navigate [Next, Next, Previous, Previous] three_pages)) \<in> {0, 1, 2} \<and>
   current_page (snd (GenericMenu_next three_pages_generic)) = 1 \<and>
   current_page (snd (GenericMenu_prev three_pages_generic)) = 2 \<and>
   fst (GenericMenu_navigate [Previous, Previous, Next] three_pages_generic) = None \<and>
   current_page (snd (GenericMenu_navigate [Previous, Previous, Next] three_pages_generic)) \<in> {0, 1, 2}"
proof -
  have m: "source three_pages = ListPageSource [''a'', ''b'', ''c'']"
    "0 \<le> current_page three_pages" "current_page three_pages < int (length [''a'', ''b'', ''c''])"
    by (simp_all add: three_pages_def)
  have g: "source three_pages_generic = ListPageSource [''a'', ''b'', ''c'']"
    "0 \<le> current_page three_pages_generic"
    "current_page three_pages_generic < int (length [''a'', ''b'', ''c''])"
    by (simp_all add: three_pages_generic_def)
  have c: "current_page three_pages = 2" "current_page three_pages_generic = 0"
    by (simp_all add: three_pages_def three_pages_generic_def)
  show ?thesis
    using next_prev_keep_index_in_range[OF m g,
        of "[Next, Next, Previous, Previous]" "[Previous, Previous, Next]"] c
    by auto
qed

subsection \<open>The jump prompt\<close>

lemma number_page_in_range:
  assumes "source m = ListPageSource entries" "1 \<le> t" "t \<le> int (length entries)"
  shows "PokeListMenu_number_page (Some t) m =
    (None, m\<lparr>current_page := t - 1,
       effects := effects m @ [Send Prompt, Edit (entries ! nat (t - 1)), Delete Prompt, Delete (Reply t)]\<rparr>)"
proof -
  let ?m1 = "ctx_send Prompt m"
  have src: "source ?m1 = ListPageSource entries"
    using assms(1) by (simp add: ctx_send_def)
  have "show_checked_page (t - 1) ?m1 =
    (None, ?m1\<lparr>current_page := t - 1, effects := effects ?m1 @ [Edit (entries ! nat (t - 1))]\<rparr>)"
    using src assms(2,3) by (intro show_checked_page_list) auto
  then show ?thesis
    using assms src
    by (simp add: PokeListMenu_number_page_def Let_def ListPageSource_def and_then_def
        cleanup_def ctx_send_def)
qed

lemma number_page_above:
  assumes "source m = ListPageSource entries" "entries \<noteq> []" "int (length entries) < t"
  shows "PokeListMenu_number_page (Some t) m =
    (None, m\<lparr>current_page := int (length entries) - 1,
       effects := effects m @ [Send Prompt, Send Notice,
         Edit (entries ! nat (int (length entries) - 1)), Delete Prompt, Delete (Reply t)]\<rparr>)"
proof -
  let ?m2 = "ctx_send Notice (ctx_send Prompt m)"
  let ?n = "int (length entries)"
  have src: "source ?m2 = ListPageSource entries"
    using assms(1) by (simp add: ctx_send_def)
  have "show_checked_page (?n - 1) ?m2 =
    (None, ?m2\<lparr>current_page := ?n - 1, effects := effects ?m2 @ [Edit (entries ! nat (?n - 1))]\<rparr>)"
    using src assms(2) by (intro show_checked_page_list) auto
  moreover have "t \<noteq> 0" using assms(3) by auto
  ultimately show ?thesis
    using assms(1,3)
    by (simp add: PokeListMenu_number_page_def Let_def ListPageSource_def and_then_def
        cleanup_def ctx_send_def)
qed

lemma number_page_below:
  assumes "get_max_pages (source m) = Some n" "0 \<le> n" "t < 1"
  shows "fst (PokeListMenu_number_page (Some t) m) = None \<and>
         current_page (snd (PokeListMenu_number_page (Some t) m)) = current_page m"
proof (cases "t = 0")
  case True
  then show ?thesis
    by (simp add: PokeListMenu_number_page_def Let_def ctx_send_def)
next
  case False
  let ?m1 = "ctx_send Prompt m"
  have "show_checked_page (t - 1) ?m1 = (None, ?m1)"
    using assms by (intro show_checked_page_outside[where n = n]) (auto simp: ctx_send_def)
  then show ?thesis
    using False assms
    by (simp add: PokeListMenu_number_page_def Let_def and_then_def cleanup_def ctx_send_def)
qed

text \<open>
  Claim C2, amended. On a \<^verbatim>\<open>PokeListMenu\<close> over a list source with at least one page, a
  numeric reply \<open>t\<close> to the jump prompt sets the index to \<open>t - 1\<close> when \<open>t\<close> is in
  \<open>[1, totalPages]\<close>, and to \<open>totalPages - 1\<close>, after the notice, when \<open>t > totalPages\<close>; in
  both cases nothing is raised and the prompt and the reply are deleted. When \<open>t < 1\<close>
  nothing is raised and the index is left as it was.
\<close>

theorem jump_sets_index:
  assumes "source m = ListPageSource entries" and "entries \<noteq> []"
  shows
    "(1 \<le> t \<and> t \<le> int (length entries) \<longrightarrow>
        PokeListMenu_number_page (Some t) m =
          (None, m\<lparr>current_page := t - 1,
             effects := effects m @
               [Send Prompt, Edit (entries ! nat (t - 1)), Delete Prompt, Delete (Reply t)]\<rparr>)) \<and>
     (int (length entries) < t \<longrightarrow>
        PokeListMenu_number_page (Some t) m =
          (None, m\<lparr>current_page := int (length entries) - 1,
             effects := effects m @
               [Send Prompt, Send Notice, Edit (entries ! nat (int (length entries) - 1)),
                Delete Prompt, Delete (Reply t)]\<rparr>)) \<and>
     (t < 1 \<longrightarrow>
        fst (PokeListMenu_number_page (Some t) m) = None \<and>
        current_page (snd (PokeListMenu_number_page (Some t) m)) = current_page m)"
proof -
  have "get_max_pages (source m) = Some (int (length entries))"
    using assms(1) by (simp add: ListPageSource_def)
  then show ?thesis
    using number_page_in_range[OF assms(1), of t] number_page_above[OF assms, of t]
      number_page_below[of m "int (length entries)" t]
    by simp
qed

text \<open>The theorem at the example menu of three pages, for the replies 1, 10 and -4.\<close>

theorem jump_sets_index_witness:
  "current_page (snd (PokeListMenu_number_page (Some 1) three_pages)) = 0 \<and>
   current_page (snd (PokeListMenu_number_page (Some 10) three_pages)) = 2 \<and>
   Send Notice \<in> set (effects (snd (PokeListMenu_number_page (Some 10) three_pages))) \<and>
   fst (PokeListMenu_number_page (Some 10) three_pages) = None \<and>
   current_page (snd (PokeListMenu_number_page (Some (- 4)) three_pages)) = current_page three_pages"
proof -
  have m: "source three_pages = ListPageSource [''a'', ''b'', ''c'']" "[''a'', ''b'', ''c''] \<noteq> []"
    by (simp_all add: three_pages_def)
  show ?thesis
    using jump_sets_index[OF m, of 1] jump_sets_index[OF m, of 10] jump_sets_index[OF m, of "- 4"]
    by simp
qed

text \<open>
  Claim C2 as stated fails below 1: with three pages and the index at 2, the reply -1
  does not set the index to 0.
\<close>

theorem jump_below_one_counterexample:
  "get_max_pages (source three_pages) = Some 3 \<and>
   current_page (snd (PokeListMenu_number_page (Some (- 1)) three_pages)) \<noteq> 0"
  by (simp add: three_pages_def ListPageSource_def PokeListMenu_number_page_def Let_def
      ctx_send_def show_checked_page_def and_then_def cleanup_def)

subsection \<open>Visible controls\<close>



text \<open>
  Claim C10, amended. A \<^verbatim>\<open>PokeListMenu\<close> declares previous, stop, next and jump without a
  skip predicate, so the four are among the menu's buttons whatever the source and its
  page count, known or not; select alone has one, and is among them exactly when
  \<^verbatim>\<open>ctx.author\<close> is the menu's \<^verbatim>\<open>user\<close>. The buttons are put under the message only when
  the source paginates: over a list source with two pages or more all of them are, over
  a list source with a single page, or none, no control is shown at all.
\<close>

theorem poke_list_controls_without_skip_predicate:
  fixes m :: "'p PokeListMenu"
  shows "set (map emoji (buttons PokeListMenu_buttons m)) =
           {BLACK_LEFT_POINTING_TRIANGLE, CROSS_MARK, BLACK_RIGHT_POINTING_TRIANGLE,
            LEFT_POINTING_MAGNIFYING_GLASS} \<union>
           (if ctx_author m = user m then {WHITE_HEAVY_CHECK_MARK} else {}) \<and>
         (\<lambda>b. (emoji b, skip_if b = None)) ` set (PokeListMenu_buttons :: 'p PokeListMenu button list) =
           {(BLACK_LEFT_POINTING_TRIANGLE, True), (CROSS_MARK, True),
            (BLACK_RIGHT_POINTING_TRIANGLE, True), (LEFT_POINTING_MAGNIFYING_GLASS, True),
            (WHITE_HEAVY_CHECK_MARK, False)} \<and>
         set (reactions_added PokeListMenu_buttons m) =
           (if is_paginating (source m) then
              {BLACK_LEFT_POINTING_TRIANGLE, CROSS_MARK, BLACK_RIGHT_POINTING_TRIANGLE,
               LEFT_POINTING_MAGNIFYING_GLASS} \<union>
              (if ctx_author m = user m then {WHITE_HEAVY_CHECK_MARK} else {})
            else {}) \<and>
         (source m = ListPageSource entries \<longrightarrow>
            is_paginating (source m) = (1 < length entries))"
proof -
  have shown: "set (map emoji (buttons PokeListMenu_buttons m)) =
           {BLACK_LEFT_POINTING_TRIANGLE, CROSS_MARK, BLACK_RIGHT_POINTING_TRIANGLE,
            LEFT_POINTING_MAGNIFYING_GLASS} \<union>
           (if ctx_author m = user m then {WHITE_HEAVY_CHECK_MARK} else {})"
    by (auto simp: buttons_def PokeListMenu_buttons_def skipped_def PokeListMenu_cant_select_def)
  have declared: "(\<lambda>b. (emoji b, skip_if b = None)) ` set (PokeListMenu_buttons :: 'p PokeListMenu button list) =
           {(BLACK_LEFT_POINTING_TRIANGLE, True), (CROSS_MARK, True),
            (BLACK_RIGHT_POINTING_TRIANGLE, True), (LEFT_POINTING_MAGNIFYING_GLASS, True),
            (WHITE_HEAVY_CHECK_MARK, False)}"
    by (simp add: PokeListMenu_buttons_def)
  have gate: "set (reactions_added PokeListMenu_buttons m) =
      (if is_paginating (source m) then set (map emoji (buttons PokeListMenu_buttons m)) else {})"
    by (simp add: reactions_added_def should_add_reactions_def)
  have list: "source m = ListPageSource entries \<longrightarrow>
            is_paginating (source m) = (1 < length entries)"
    by (simp add: ListPageSource_def)
  show ?thesis
    using declared list unfolding gate shown by simp
qed

text \<open>The theorem at the example menus of three pages and of one page.\<close>

theorem poke_list_controls_without_skip_predicate_witness:
  "source three_pages = ListPageSource [''a'', ''b'', ''c''] \<and>
   set (reactions_added PokeListMenu_buttons three_pages) =
     {BLACK_LEFT_POINTING_TRIANGLE, CROSS_MARK, BLACK_RIGHT_POINTING_TRIANGLE,
      LEFT_POINTING_MAGNIFYING_GLASS, WHITE_HEAVY_CHECK_MARK} \<and>
   source one_page = ListPageSource [''a''] \<and>
   set (map emoji (buttons PokeListMenu_buttons one_page)) =
     {BLACK_LEFT_POINTING_TRIANGLE, CROSS_MARK, BLACK_RIGHT_POINTING_TRIANGLE,
      LEFT_POINTING_MAGNIFYING_GLASS, WHITE_HEAVY_CHECK_MARK} \<and>
   set (reactions_added PokeListMenu_buttons one_page) = {}"
proof -
  have three: "source three_pages = ListPageSource [''a'', ''b'', ''c'']"
    "ctx_author three_pages = user three_pages"
    by (simp_all add: three_pages_def)
  have one: "source one_page = ListPageSource [''a'']" "ctx_author one_page = user one_page"
    by (simp_all add: one_page_def)
  show ?thesis
    using poke_list_controls_without_skip_predicate[of three_pages "[''a'', ''b'', ''c'']"]
      poke_list_controls_without_skip_predicate[of one_page "[''a'']"] three one
    by auto
qed

text \<open>
  Claim C10 as stated fails at a single page: the four controls are among the buttons,
  but the menu puts no reaction under its message, so none of them is exposed.
\<close>

theorem poke_list_single_page_counterexample:
  "get_max_pages (source one_page) = Some 1 \<and>
   reactions_added PokeListMenu_buttons one_page = [] \<and>
   BLACK_RIGHT_POINTING_TRIANGLE \<notin> set (reactions_added PokeListMenu_buttons one_page)"
  by (simp add: one_page_def ListPageSource_def reactions_added_def should_add_reactions_def)

subsection \<open>Authorisation\<close>

text \<open>
  Claim C4. A reaction by a user who is neither one of the owners nor the author of the
  menu fails the reaction check of either menu class, and its dispatch raises nothing
  and leaves the whole menu object, the index included, as it was.
\<close>

theorem unauthorized_reaction_is_dropped:
  fixes m :: "'p PokeListMenu" and g :: "'p GenericMenu"
  assumes "user_id p \<notin> set (owner_ids m)" and "user_id p \<noteq> author_id m"
    and "user_id q \<notin> set (owner_ids g)" and "user_id q \<noteq> author_id g"
  shows "\<not> PokeListMenu_reaction_check m p \<and>
         dispatch PokeListMenu_reaction_check PokeListMenu_buttons p reply m = (None, m) \<and>
         \<not> GenericMenu_reaction_check g q \<and>
         dispatch GenericMenu_reaction_check GenericMenu_buttons q answer g = (None, g)"
  using assms
  by (simp add: PokeListMenu_reaction_check_def GenericMenu_reaction_check_def dispatch_def)

text \<open>The theorem at a reaction of user 7 on the two example menus of three pages.\<close>

theorem unauthorized_reaction_is_dropped_witness:
  "\<not> PokeListMenu_reaction_check three_pages (stranger 10 BLACK_RIGHT_POINTING_TRIANGLE) \<and>
   dispatch PokeListMenu_reaction_check PokeListMenu_buttons
     (stranger 10 BLACK_RIGHT_POINTING_TRIANGLE) None three_pages = (None, three_pages) \<and>
   \<not> GenericMenu_reaction_check three_pages_generic (stranger 11 CROSS_MARK) \<and>
   dispatch GenericMenu_reaction_check GenericMenu_buttons
     (stranger 11 CROSS_MARK) None three_pages_generic = (None, three_pages_generic)"
proof -
  have p: "user_id (stranger 10 BLACK_RIGHT_POINTING_TRIANGLE) \<notin> set (owner_ids three_pages)"
    "user_id (stranger 10 BLACK_RIGHT_POINTING_TRIANGLE) \<noteq> author_id three_pages"
    by (simp_all add: stranger_def three_pages_def)
  have q: "user_id (stranger 11 CROSS_MARK) \<notin> set (owner_ids three_pages_generic)"
    "user_id (stranger 11 CROSS_MARK) \<noteq> author_id three_pages_generic"
    by (simp_all add: stranger_def three_pages_generic_def)
  show ?thesis
    using unauthorized_reaction_is_dropped[OF p q, of None None] by simp
qed

subsection \<open>Stopping\<close>

lemma update_stopped:
  "\<not> running m \<Longrightarrow> snd (update declared p reply m) = m"
  by (simp add: update_def split: option.split)

lemma dispatch_stopped:
  "\<not> running m \<Longrightarrow> snd (dispatch check declared p reply m) = m"
  by (simp add: dispatch_def update_stopped)

lemma dispatch_all_stopped:
  "\<not> running m \<Longrightarrow> dispatch_all check declared events m = m"
  by (induction events) (auto simp: dispatch_stopped)

lemma find_stop_PokeListMenu:
  "find (\<lambda>b. emoji b = CROSS_MARK) (buttons PokeListMenu_buttons m) =
     Some \<lparr> emoji = CROSS_MARK, skip_if = None, action = (\<lambda>_. PokeListMenu_stop_pages_default) \<rparr>"
  by (simp add: buttons_def PokeListMenu_buttons_def skipped_def)

lemma find_stop_GenericMenu:
  "find (\<lambda>b. emoji b = CROSS_MARK) (buttons GenericMenu_buttons g) =
     Some \<lparr> emoji = CROSS_MARK, skip_if = None, action = (\<lambda>_. GenericMenu_stop_pages_default) \<rparr>"
  by (simp add: buttons_def GenericMenu_buttons_def skipped_def)

text \<open>
  Claim C5. When a running menu of either class processes the stop reaction, the
  dispatch raises nothing and leaves the menu stopped, and whatever events are
  dispatched afterwards the menu object stays as the stop left it: the index is kept and
  no effect, a re-render least of all, is added.
\<close>

theorem stop_is_terminal:
  fixes m :: "'p PokeListMenu" and g :: "'p GenericMenu"
  assumes "running m" and "PokeListMenu_reaction_check m p" and "payload_emoji p = CROSS_MARK"
    and "running g" and "GenericMenu_reaction_check g q" and "payload_emoji q = CROSS_MARK"
  shows "dispatch PokeListMenu_reaction_check PokeListMenu_buttons p reply m = (None, stop m) \<and>
         \<not> running (stop m) \<and>
         current_page (stop m) = current_page m \<and> effects (stop m) = effects m \<and>
         dispatch_all PokeListMenu_reaction_check PokeListMenu_buttons events (stop m) = stop m \<and>
         dispatch GenericMenu_reaction_check GenericMenu_buttons q answer g = (None, stop g) \<and>
         \<not> running (stop g) \<and>
         current_page (stop g) = current_page g \<and> effects (stop g) = effects g \<and>
         dispatch_all GenericMenu_reaction_check GenericMenu_buttons others (stop g) = stop g"
proof -
  have "dispatch PokeListMenu_reaction_check PokeListMenu_buttons p reply m = (None, stop m)"
    using assms(1-3)
    by (simp add: dispatch_def update_def find_stop_PokeListMenu PokeListMenu_stop_pages_default_def)
  moreover have "dispatch GenericMenu_reaction_check GenericMenu_buttons q answer g = (None, stop g)"
    using assms(4-6)
    by (simp add: dispatch_def update_def find_stop_GenericMenu GenericMenu_stop_pages_default_def)
  moreover have "\<not> running (stop m)" "\<not> running (stop g)"
    by (simp_all add: stop_def)
  moreover have "current_page (stop m) = current_page m" "effects (stop m) = effects m"
    "current_page (stop g) = current_page g" "effects (stop g) = effects g"
    by (simp_all add: stop_def)
  ultimately show ?thesis
    by (simp add: dispatch_all_stopped)
qed

text \<open>
  The theorem at the author's stop reaction on the two example menus, followed by the
  author's next and previous reactions.
\<close>

theorem stop_is_terminal_witness:
  "dispatch PokeListMenu_reaction_check PokeListMenu_buttons
     (author_reacts 10 CROSS_MARK) None three_pages = (None, stop three_pages) \<and>
   dispatch_all PokeListMenu_reaction_check PokeListMenu_buttons
     [(author_reacts 10 BLACK_RIGHT_POINTING_TRIANGLE, None),
      (author_reacts 10 LEFT_POINTING_MAGNIFYING_GLASS, Some 1)] (stop three_pages) =
     stop three_pages \<and>
   dispatch GenericMenu_reaction_check GenericMenu_buttons
     (author_reacts 11 CROSS_MARK) None three_pages_generic = (None, stop three_pages_generic) \<and>
   dispatch_all GenericMenu_reaction_check GenericMenu_buttons
     [(author_reacts 11 BLACK_LEFT_POINTING_TRIANGLE, None)] (stop three_pages_generic) =
     stop three_pages_generic"
proof -
  have m: "running three_pages"
    "PokeListMenu_reaction_check three_pages (author_reacts 10 CROSS_MARK)"
    "payload_emoji (author_reacts 10 CROSS_MARK) = CROSS_MARK"
    by (simp_all add: three_pages_def author_reacts_def PokeListMenu_reaction_check_def
        buttons_def PokeListMenu_buttons_def skipped_def)
  have g: "running three_pages_generic"
    "GenericMenu_reaction_check three_pages_generic (author_reacts 11 CROSS_MARK)"
    "payload_emoji (author_reacts 11 CROSS_MARK) = CROSS_MARK"
    by (simp_all add: three_pages_generic_def author_reacts_def GenericMenu_reaction_check_def
        buttons_def GenericMenu_buttons_def skipped_def)
  show ?thesis
    using stop_is_terminal[OF m g, of None
        "[(author_reacts 10 BLACK_RIGHT_POINTING_TRIANGLE, None),
          (author_reacts 10 LEFT_POINTING_MAGNIFYING_GLASS, Some 1)]" None
        "[(author_reacts 11 BLACK_LEFT_POINTING_TRIANGLE, None)]"]
    by simp
qed

subsection \<open>The messages of the jump prompt\<close>


text \<open>
  Claim C6 at the reply \<^verbatim>\<open>"0"\<close>. The reply is a valid integer, so the wait returns it
  before the timeout, but \<^verbatim>\<open>if pred.result:\<close> is false of 0: the handler returns with
  the prompt sent and nothing deleted, neither the prompt nor the reply.
\<close>

theorem number_page_reply_zero_keeps_prompt:
  "PokeListMenu_number_page (Some 0) m = (None, m\<lparr>effects := effects m @ [Send Prompt]\<rparr>) \<and>
   effects (snd (PokeListMenu_number_page (Some 0) three_pages)) = [Send Prompt] \<and>
   Delete Prompt \<notin> set (effects (snd (PokeListMenu_number_page (Some 0) three_pages)))"
proof -
  have zero: "PokeListMenu_number_page (Some 0) n = (None, n\<lparr>effects := effects n @ [Send Prompt]\<rparr>)"
    for n :: "'q PokeListMenu"
    by (simp add: PokeListMenu_number_page_def Let_def ctx_send_def)
  have "effects three_pages = []"
    by (simp add: three_pages_def)
  then have "effects (snd (PokeListMenu_number_page (Some 0) three_pages)) = [Send Prompt]"
    by (simp add: zero)
  then show ?thesis
    by (simp add: zero)
qed

subsection \<open>A source without pages\<close>








subsection \<open>Select\<close>

lemma find_select_PokeListMenu:
  "ctx_author m = user m \<Longrightarrow>
   find (\<lambda>b. emoji b = WHITE_HEAVY_CHECK_MARK) (buttons PokeListMenu_buttons m) =
     Some \<lparr> emoji = WHITE_HEAVY_CHECK_MARK, skip_if = Some PokeListMenu_cant_select,
            action = (\<lambda>_. PokeListMenu_select) \<rparr>"
  by (simp add: buttons_def PokeListMenu_buttons_def skipped_def PokeListMenu_cant_select_def)

text \<open>
  Claim C8, amended. The select control is exposed only when \<^verbatim>\<open>ctx.author\<close>, the invoking
  user, is the \<^verbatim>\<open>user\<close> the menu was built for; a reaction on it is then accepted from
  the author of the menu and from every owner of the bot, and from nobody else. Its
  handler invokes the external \<^verbatim>\<open>select\<close> command with the current index plus one,
  raises nothing and changes nothing else of the menu, and this is what the dispatch of
  an accepted reaction on a running menu does.
\<close>

theorem select_forwards_index_plus_one:
  fixes m :: "'p PokeListMenu"
  shows "(WHITE_HEAVY_CHECK_MARK \<in> set (map emoji (buttons PokeListMenu_buttons m))) =
           (ctx_author m = user m) \<and>
         (payload_emoji p = WHITE_HEAVY_CHECK_MARK \<longrightarrow>
            PokeListMenu_reaction_check m p =
              (payload_message_id p = message_id m \<and>
               (user_id p \<in> set (owner_ids m) \<or> user_id p = author_id m) \<and>
               ctx_author m = user m)) \<and>
         PokeListMenu_select m =
           (None, m\<lparr>effects := effects m @ [Invoke ''select'' (current_page m + 1)]\<rparr>) \<and>
         (running m \<and> PokeListMenu_reaction_check m p \<and>
          payload_emoji p = WHITE_HEAVY_CHECK_MARK \<longrightarrow>
            dispatch PokeListMenu_reaction_check PokeListMenu_buttons p reply m =
              (None, m\<lparr>effects := effects m @ [Invoke ''select'' (current_page m + 1)]\<rparr>))"
proof -
  have exposed: "(WHITE_HEAVY_CHECK_MARK \<in> set (map emoji (buttons PokeListMenu_buttons m))) =
           (ctx_author m = user m)"
    by (simp add: buttons_def PokeListMenu_buttons_def skipped_def PokeListMenu_cant_select_def)
  have accepted: "payload_emoji p = WHITE_HEAVY_CHECK_MARK \<longrightarrow>
            PokeListMenu_reaction_check m p =
              (payload_message_id p = message_id m \<and>
               (user_id p \<in> set (owner_ids m) \<or> user_id p = author_id m) \<and>
               ctx_author m = user m)"
    using exposed by (auto simp: PokeListMenu_reaction_check_def)
  have handler: "PokeListMenu_select m =
           (None, m\<lparr>effects := effects m @ [Invoke ''select'' (current_page m + 1)]\<rparr>)"
    by (simp add: PokeListMenu_select_def)
  have "running m \<and> PokeListMenu_reaction_check m p \<and>
          payload_emoji p = WHITE_HEAVY_CHECK_MARK \<longrightarrow>
            dispatch PokeListMenu_reaction_check PokeListMenu_buttons p reply m =
              (None, m\<lparr>effects := effects m @ [Invoke ''select'' (current_page m + 1)]\<rparr>)"
    using accepted handler by (auto simp: dispatch_def update_def find_select_PokeListMenu)
  with exposed accepted handler show ?thesis
    by blast
qed

text \<open>
  The theorem at a select reaction of the owner, user 1, on the example menu, whose
  author is user 2 and whose index is 2.
\<close>

theorem select_forwards_index_plus_one_witness:
  "running three_pages \<and>
   PokeListMenu_reaction_check three_pages (owner_reacts 10 WHITE_HEAVY_CHECK_MARK) \<and>
   WHITE_HEAVY_CHECK_MARK \<in> set (map emoji (buttons PokeListMenu_buttons three_pages)) \<and>
   effects (snd (dispatch PokeListMenu_reaction_check PokeListMenu_buttons
     (owner_reacts 10 WHITE_HEAVY_CHECK_MARK) None three_pages)) = [Invoke ''select'' 3]"
proof -
  have h: "running three_pages" "ctx_author three_pages = user three_pages"
    "payload_emoji (owner_reacts 10 WHITE_HEAVY_CHECK_MARK) = WHITE_HEAVY_CHECK_MARK"
    "payload_message_id (owner_reacts 10 WHITE_HEAVY_CHECK_MARK) = message_id three_pages"
    "user_id (owner_reacts 10 WHITE_HEAVY_CHECK_MARK) \<in> set (owner_ids three_pages)"
    "current_page three_pages = 2" "effects three_pages = []"
    by (simp_all add: three_pages_def owner_reacts_def)
  show ?thesis
    using select_forwards_index_plus_one[of three_pages
        "owner_reacts 10 WHITE_HEAVY_CHECK_MARK" None] h
    by simp
qed

text \<open>
  Claim C8 as stated fails twice on the example menu, whose index is 2 and whose
  invoking user is user 2: the command is invoked with 3, not with the index; and the
  control is not for the invoking user only, since the reaction of user 1, an owner,
  is accepted and invokes the command as well.
\<close>

theorem select_forwards_index_counterexample:
  "current_page three_pages = 2 \<and>
   effects (snd (PokeListMenu_select three_pages)) = [Invoke ''select'' 3] \<and>
   Invoke ''select'' (current_page three_pages) \<notin> set (effects (snd (PokeListMenu_select three_pages))) \<and>
   user_id (owner_reacts 10 WHITE_HEAVY_CHECK_MARK) \<noteq> ctx_author three_pages \<and>
   user_id (owner_reacts 10 WHITE_HEAVY_CHECK_MARK) \<noteq> author_id three_pages \<and>
   PokeListMenu_reaction_check three_pages (owner_reacts 10 WHITE_HEAVY_CHECK_MARK) \<and>
   effects (snd (dispatch PokeListMenu_reaction_check PokeListMenu_buttons
     (owner_reacts 10 WHITE_HEAVY_CHECK_MARK) None three_pages)) = [Invoke ''select'' 3]"
  by (simp add: three_pages_def owner_reacts_def PokeListMenu_select_def
      PokeListMenu_reaction_check_def dispatch_def update_def buttons_def
      PokeListMenu_buttons_def skipped_def PokeListMenu_cant_select_def)

subsection \<open>The page of one Pok\'emon\<close>

lemma digit_not_sign:
  assumes "k < 10"
  shows "digit k \<noteq> CHR ''+'' \<and> digit k \<noteq> CHR ''-''"
proof -
  have "list_all (\<lambda>d. digit d \<noteq> CHR ''+'' \<and> digit d \<noteq> CHR ''-'') [0..<10]"
    by code_simp
  moreover have "k \<in> set [0..<10]"
    using assms by simp
  ultimately show ?thesis
    unfolding list_all_iff by blast
qed

lemma str_nat_head:
  "\<exists>k rest. k < 10 \<and> str_nat n = digit k # rest"
proof (induction n rule: str_nat.induct)
  case (1 n)
  show ?case
  proof (cases "n < 10")
    case True
    then show ?thesis
      by (subst str_nat.simps) auto
  next
    case False
    with "1" obtain k rest where "k < 10" "str_nat (n div 10) = digit k # rest"
      by auto
    with False show ?thesis
      by (subst str_nat.simps) auto
  qed
qed

lemma zfill_positive:
  assumes "0 < i"
  shows "zfill w (str_int i) = replicate (w - length (str_int i)) CHR ''0'' @ str_int i"
proof -
  obtain k rest where k: "k < 10" "str_nat (nat i) = digit k # rest"
    using str_nat_head by blast
  have s: "str_int i = digit k # rest"
    using assms k by (simp add: str_int_def)
  show ?thesis
    using digit_not_sign[OF k(1)] by (simp add: s zfill_def)
qed

text \<open>
  Claim C9, amended. For a record with a catalog id other than 0, the thumbnail is the
  record's URL when it has a non-empty one, and otherwise the asset URL built from the
  catalog id filled with zeros on the left to three digits; for a record without a
  catalog id, or with the id 0, no thumbnail is set. The footer always shows the
  record's display id over the number of entries.
\<close>

theorem format_page_thumbnail_and_footer:
  "(pokemon_id p = Some i \<and> i \<noteq> 0 \<and> url p = Some u \<and> u \<noteq> [] \<longrightarrow>
      thumbnail (PokeList_format_page entries c menu p) = Some u) \<and>
   (pokemon_id p = Some i \<and> i \<noteq> 0 \<and> (url p = None \<or> url p = Some []) \<longrightarrow>
      thumbnail (PokeList_format_page entries c menu p) =
        Some (''https://assets.pokemon.com/assets/cms2/img/pokedex/detail/''
              @ zfill 3 (str_int i) @ ''.png'')) \<and>
   (pokemon_id p = None \<or> pokemon_id p = Some 0 \<longrightarrow>
      thumbnail (PokeList_format_page entries c menu p) = None) \<and>
   footer (PokeList_format_page entries c menu p) =
     Some (''Pok'' @ [CHR 0xE9] @ ''mon ID: '' @ str_int (sid p) @ ''/''
           @ str_int (int (length entries))) \<and>
   (0 < i \<longrightarrow> zfill 3 (str_int i) = replicate (3 - length (str_int i)) CHR ''0'' @ str_int i)"
proof -
  have "0 < i \<longrightarrow> zfill 3 (str_int i) = replicate (3 - length (str_int i)) CHR ''0'' @ str_int i"
    using zfill_positive[of i 3] by blast
  then show ?thesis
    by (auto simp: PokeList_format_page_def Let_def truthy_int_def truthy_str_def)
qed

text \<open>
  The theorem at three records: Pikachu, with the catalog id 25 and no URL; Pikachu
  with a URL; and a record without a catalog id.
\<close>

theorem format_page_thumbnail_and_footer_witness:
  "thumbnail (PokeList_format_page [pikachu, missingno] plain_cog three_pages pikachu) =
     Some ''https://assets.pokemon.com/assets/cms2/img/pokedex/detail/025.png'' \<and>
   thumbnail (PokeList_format_page [pikachu, missingno] plain_cog three_pages
     (pikachu\<lparr>url := Some ''https://example.org/pika.png''\<rparr>)) =
     Some ''https://example.org/pika.png'' \<and>
   thumbnail (PokeList_format_page [pikachu, missingno] plain_cog three_pages missingno) = None \<and>
   footer (PokeList_format_page [pikachu, missingno] plain_cog three_pages pikachu) =
     Some (''Pok'' @ [CHR 0xE9] @ ''mon ID: 1/2'')"
proof -
  have a: "pokemon_id pikachu = Some 25 \<and> (25::int) \<noteq> 0 \<and>
      (url pikachu = None \<or> url pikachu = Some [])"
    by (simp add: pikachu_def)
  have b: "pokemon_id (pikachu\<lparr>url := Some ''https://example.org/pika.png''\<rparr>) = Some 25 \<and>
      (25::int) \<noteq> 0 \<and>
      url (pikachu\<lparr>url := Some ''https://example.org/pika.png''\<rparr>) =
        Some ''https://example.org/pika.png'' \<and> ''https://example.org/pika.png'' \<noteq> []"
    by (simp add: pikachu_def)
  have c: "pokemon_id missingno = None \<or> pokemon_id missingno = Some 0"
    by (simp add: missingno_def)
  have d1: "zfill 3 (str_int 25) = ''025''"
    by code_simp
  have d2: "str_int (sid pikachu) = ''1''"
    by code_simp
  have d3: "str_int (int (length [pikachu, missingno])) = ''2''"
    by code_simp
  show ?thesis
    using format_page_thumbnail_and_footer[of pikachu 25 "[]" "[pikachu, missingno]" plain_cog three_pages]
      format_page_thumbnail_and_footer[of "pikachu\<lparr>url := Some ''https://example.org/pika.png''\<rparr>"
        25 "''https://example.org/pika.png''" "[pikachu, missingno]" plain_cog three_pages]
      format_page_thumbnail_and_footer[of missingno 0 "[]" "[pikachu, missingno]" plain_cog three_pages]
      a b c d1 d2 d3
    by simp
qed

text \<open>
  Claim C9 as stated fails for a record that has a URL and no catalog id: the renderer
  sets no thumbnail at all.
\<close>

theorem format_page_thumbnail_counterexample:
  "url missingno = Some ''https://example.org/missingno.png'' \<and>
   thumbnail (PokeList_format_page [pikachu, missingno] plain_cog three_pages missingno) = None \<and>
   thumbnail (PokeList_format_page [pikachu, missingno] plain_cog three_pages missingno) \<noteq>
     url missingno"
  by (simp add: missingno_def PokeList_format_page_def Let_def truthy_int_def)

end
